theory Spec2Isabelle
  imports Main "HOL-Library.Word"
begin

text \<open>
  The repository is an Express server, f1api.js, that reads JSON data files, renders
  them into pages and asks an external Python script for race timing and driver
  locations; a second source file is the same set of routes as a router module, with
  a handler of its own for the locations. This theory embeds the helpers and the handlers
  of \<open>GET /drivers/:driverId\<close>, \<open>GET /replays/:session_key\<close> and
  \<open>GET /api/locations/:session_key/:startTime/:endTime\<close> as functions of the request
  and of an environment (engine, file system, child process), and proves what the
  specification says of them.
\<close>

section \<open>JavaScript strings\<close>

text \<open>
  A JavaScript string is a sequence of UTF-16 code units. The regular expressions of
  the program carry no \<open>u\<close> flag, so they work on code units, and every white-space
  character of ECMAScript lies in the basic plane: one code unit each.
  \<open>js\<close> writes an ASCII literal as such a sequence.
\<close>

type_synonym jschar = "16 word"
type_synonym jsstring = "jschar list"

definition js :: "string \<Rightarrow> jsstring" where
  "js s = map of_char s"

text \<open>
  The class \<open>\s\<close> of a regular expression and the characters that
  \<open>String.prototype.trim\<close> strips are the same set: WhiteSpace (TAB, VT, FF, SP, NBSP,
  ZWNBSP and the category Zs) and LineTerminator (LF, CR, LS, PS).
\<close>

definition is_space :: "jschar \<Rightarrow> bool" where
  "is_space c \<longleftrightarrow>
     c \<in> {0x9, 0xA, 0xB, 0xC, 0xD, 0x20, 0xA0, 0x1680, 0x2028, 0x2029, 0x202F, 0x205F,
          0x3000, 0xFEFF}
     \<or> (0x2000 \<le> c \<and> c \<le> 0x200A)"

definition hyphen :: jschar where
  "hyphen = 0x2D"

definition is_lower :: "jschar \<Rightarrow> bool" where
  "is_lower c \<longleftrightarrow> 0x61 \<le> c \<and> c \<le> 0x7A"

definition is_digit :: "jschar \<Rightarrow> bool" where
  "is_digit c \<longleftrightarrow> 0x30 \<le> c \<and> c \<le> 0x39"

text \<open>\<open>s.trim()\<close>\<close>

definition trim :: "jsstring \<Rightarrow> jsstring" where
  "trim s = rev (dropWhile is_space (rev (dropWhile is_space s)))"

text \<open>\<open>s.replace(/[^a-z0-9\s-]/g, '')\<close>: every code unit outside the class is deleted.\<close>

definition in_slug_class :: "jschar \<Rightarrow> bool" where
  "in_slug_class c \<longleftrightarrow> is_lower c \<or> is_digit c \<or> is_space c \<or> c = hyphen"

definition strip_others :: "jsstring \<Rightarrow> jsstring" where
  "strip_others s = filter in_slug_class s"

text \<open>\<open>s.replace(/\s+/g, '-')\<close>: every maximal run of white space becomes one hyphen.\<close>

function collapse_ws :: "jsstring \<Rightarrow> jsstring" where
  "collapse_ws [] = []"
| "collapse_ws (c # cs) =
     (if is_space c then hyphen # collapse_ws (dropWhile is_space cs)
      else c # collapse_ws cs)"
  by pat_completeness auto
termination
  by (relation "measure length") (auto simp: length_dropWhile_le less_Suc_eq_le)

text \<open>
  \<open>String.prototype.toLowerCase\<close> follows the Unicode case mappings of the engine, which
  are no part of the repository: the function is a parameter of the model. On ASCII
  text it is \<open>ascii_lower\<close>.
\<close>

definition ascii_lower :: "jsstring \<Rightarrow> jsstring" where
  "ascii_lower s = map (\<lambda>c. if 0x41 \<le> c \<and> c \<le> 0x5A then c + 0x20 else c) s"

text \<open>
  The body of \<open>slugify\<close> after the coercion of its argument:
  \<open>.toLowerCase().trim().replace(/[^a-z0-9\s-]/g, '').replace(/\s+/g, '-')\<close>.
\<close>

definition slugify_text :: "(jsstring \<Rightarrow> jsstring) \<Rightarrow> jsstring \<Rightarrow> jsstring" where
  "slugify_text lower s = collapse_ws (strip_others (trim (lower s)))"

text \<open>Decimal digits of an integer, as \<open>String(n)\<close> and a template literal write them.\<close>

function show_nat :: "nat \<Rightarrow> jsstring" where
  "show_nat n =
     (if n < 10 then [of_nat (48 + n)]
      else show_nat (n div 10) @ [of_nat (48 + n mod 10)])"
  by pat_completeness auto
termination
  by (relation "measure id") auto

definition show_int :: "int \<Rightarrow> jsstring" where
  "show_int i = (if i < 0 then hyphen # show_nat (nat (- i)) else show_nat (nat i))"

section \<open>JavaScript values\<close>

text \<open>
  The values the program handles come from \<open>JSON.parse\<close>, from property reads
  (\<open>undefined\<close> for a missing property) and from \<open>getFullYear\<close> (\<open>NaN\<close> for an invalid
  date). Numbers are the integers of the data files (keys, years, car numbers), which
  \<open>String\<close> writes in decimal digits; fractions and magnitudes from \<open>1e21\<close> on are
  outside the model. An object is the list of its own properties. \<open>Builtin\<close> is a
  function or object of the engine that a read through the prototype chain finds
  (\<open>Object.prototype.toString\<close> under the key \<open>toString\<close>), kept as the text that
  \<open>String\<close> gives for it. \<open>JSON.parse\<close> yields none; the program meets one only as the
  result of a read with a computed key and hands it to the template unread.
\<close>

datatype jsval =
    Undefined
  | Null
  | Bool bool
  | Num int
  | NaN
  | Str jsstring
  | Arr "jsval list"
  | Obj "(jsstring \<times> jsval) list"
  | Builtin jsstring

datatype exn =
    Error jsstring
  | TypeError jsstring
  | SyntaxError jsstring

fun message :: "exn \<Rightarrow> jsstring" where
  "message (Error m) = m"
| "message (TypeError m) = m"
| "message (SyntaxError m) = m"

text \<open>ToBoolean: what \<open>!v\<close>, \<open>v || w\<close> and \<open>if (v)\<close> test.\<close>

fun truthy :: "jsval \<Rightarrow> bool" where
  "truthy Undefined = False"
| "truthy Null = False"
| "truthy (Bool b) = b"
| "truthy (Num n) = (n \<noteq> 0)"
| "truthy NaN = False"
| "truthy (Str s) = (s \<noteq> [])"
| "truthy (Arr vs) = True"
| "truthy (Obj ps) = True"
| "truthy (Builtin t) = True"

text \<open>
  \<open>String(v)\<close>, the abstract operation ToString. An array is joined with commas, a
  \<open>null\<close> or \<open>undefined\<close> element giving the empty string. For a plain object
  OrdinaryToPrimitive tries \<open>toString\<close>, then \<open>valueOf\<close>: an own property
  \<open>toString\<close> read from JSON shadows \<open>Object.prototype.toString\<close> and is not callable,
  and \<open>valueOf\<close> (own: not callable; inherited: returns the object itself) gives no
  primitive, so the coercion throws a TypeError; any other object is
  \<open>[object Object]\<close>. A built-in has its text.
\<close>

definition cannot_convert :: exn where
  "cannot_convert = TypeError (js ''Cannot convert object to primitive value'')"

fun ToString :: "jsval \<Rightarrow> exn + jsstring"
  and join_elems :: "jsval list \<Rightarrow> exn + jsstring" where
  "ToString Undefined = Inr (js ''undefined'')"
| "ToString Null = Inr (js ''null'')"
| "ToString (Bool b) = Inr (if b then js ''true'' else js ''false'')"
| "ToString (Num n) = Inr (show_int n)"
| "ToString NaN = Inr (js ''NaN'')"
| "ToString (Str s) = Inr s"
| "ToString (Arr vs) = join_elems vs"
| "ToString (Obj ps) =
     (if js ''toString'' \<in> fst ` set ps then Inl cannot_convert
      else Inr (js ''[object Object]''))"
| "ToString (Builtin t) = Inr t"
| "join_elems [] = Inr []"
| "join_elems (v # vs) =
     (case (if v = Undefined \<or> v = Null then Inr [] else ToString v) of
        Inl e \<Rightarrow> Inl e
      | Inr a \<Rightarrow>
          (if vs = [] then Inr a
           else (case join_elems vs of
                   Inl e \<Rightarrow> Inl e
                 | Inr b \<Rightarrow> Inr (a @ js '','' @ b))))"

text \<open>
  \<open>function slugify(text) { return String(text || '').toLowerCase().trim()
  .replace(/[^a-z0-9\s-]/g, '').replace(/\s+/g, '-'); }\<close>
  (the same line in both source files). \<open>Inl\<close> is the exception that leaves the
  function.
\<close>

definition slugify :: "(jsstring \<Rightarrow> jsstring) \<Rightarrow> jsval \<Rightarrow> exn + jsstring" where
  "slugify lower text =
     (case ToString (if truthy text then text else Str []) of
        Inl e \<Rightarrow> Inl e
      | Inr s \<Rightarrow> Inr (slugify_text lower s))"

text \<open>
  The shape of a slug: its alphabet (the class of the first replacement without the
  white space, which the second replacement turns into hyphens), and hyphens that
  never stand side by side.
\<close>

fun no_double_hyphen :: "jsstring \<Rightarrow> bool" where
  "no_double_hyphen (a # b # cs) \<longleftrightarrow>
     \<not> (a = hyphen \<and> b = hyphen) \<and> no_double_hyphen (b # cs)"
| "no_double_hyphen cs \<longleftrightarrow> True"

definition is_slug_char :: "jschar \<Rightarrow> bool" where
  "is_slug_char c \<longleftrightarrow> is_lower c \<or> is_digit c \<or> c = hyphen"

text \<open>
  The values on which \<open>String(v)\<close> throws: an object with an own \<open>toString\<close>
  property, and an array with such a value among its elements.
\<close>

fun shadows_toString :: "jsval \<Rightarrow> bool" where
  "shadows_toString (Obj ps) \<longleftrightarrow> js ''toString'' \<in> fst ` set ps"
| "shadows_toString (Arr vs) \<longleftrightarrow> (\<exists>v\<in>set vs. shadows_toString v)"
| "shadows_toString v \<longleftrightarrow> False"

section \<open>Exceptions, property reads and array methods\<close>

text \<open>
  A computation that may throw returns \<open>exn + 'a\<close>; for an \<open>async\<close> function \<open>Inl\<close> is
  the rejection of its promise and \<open>Inr\<close> the resolved value. \<open>and_then\<close> runs the
  rest of a block after a step that did not throw.
\<close>

definition and_then :: "exn + 'a \<Rightarrow> ('a \<Rightarrow> exn + 'b) \<Rightarrow> exn + 'b" where
  "and_then m f = (case m of Inl e \<Rightarrow> Inl e | Inr x \<Rightarrow> f x)"

definition own :: "(jsstring \<times> jsval) list \<Rightarrow> jsstring \<Rightarrow> jsval" where
  "own ps k = (case map_of ps k of None \<Rightarrow> Undefined | Some v \<Rightarrow> v)"

definition cannot_read :: exn where
  "cannot_read = TypeError (js ''Cannot read properties of null or undefined'')"

definition not_a_function :: exn where
  "not_a_function = TypeError (js ''is not a function'')"

text \<open>
  \<open>v.name\<close> for the property names the program writes out (\<open>full_name\<close>,
  \<open>session_key\<close>, \<open>error\<close>, ...), none of which a prototype defines: an own property
  of an object and \<open>undefined\<close> on any other value (\<open>read_prop\<close>), but a TypeError on
  \<open>null\<close> and \<open>undefined\<close>. \<open>opt_get\<close> is \<open>v?.name\<close>.
\<close>

fun read_prop :: "jsval \<Rightarrow> jsstring \<Rightarrow> jsval" where
  "read_prop (Obj ps) k = own ps k"
| "read_prop v k = Undefined"

definition get :: "jsval \<Rightarrow> jsstring \<Rightarrow> exn + jsval" where
  "get v k = (if v = Undefined \<or> v = Null then Inl cannot_read else Inr (read_prop v k))"

definition opt_get :: "jsval \<Rightarrow> jsstring \<Rightarrow> jsval" where
  "opt_get v k = (if v = Undefined \<or> v = Null then Undefined else read_prop v k)"

text \<open>
  The own enumerable properties of a value, as the spread \<open>{...v}\<close> copies them: the
  properties of an object, the indexed elements of an array, the indexed code units
  of a string, none of any other value.
\<close>

fun own_props :: "jsval \<Rightarrow> (jsstring \<times> jsval) list" where
  "own_props (Obj ps) = ps"
| "own_props (Arr vs) = zip (map show_nat [0..<length vs]) vs"
| "own_props (Str s) = zip (map show_nat [0..<length s]) (map (\<lambda>c. Str [c]) s)"
| "own_props v = []"

text \<open>
  \<open>o[key]\<close> with a computed key: the key is coerced to a string; the read finds an
  own property of the value (with \<open>length\<close> of an array or a string), else the member
  that the prototype chain of the value has under that key, else \<open>undefined\<close>. What
  the prototypes hold belongs to the engine: \<open>inherited\<close> is a parameter.
\<close>

definition own_member :: "jsval \<Rightarrow> jsstring \<Rightarrow> jsval option" where
  "own_member v k =
     (case v of
        Arr vs \<Rightarrow>
          if k = js ''length'' then Some (Num (int (length vs))) else map_of (own_props v) k
      | Str s \<Rightarrow>
          if k = js ''length'' then Some (Num (int (length s))) else map_of (own_props v) k
      | _ \<Rightarrow> map_of (own_props v) k)"

definition get_computed ::
  "(jsval \<Rightarrow> jsstring \<Rightarrow> jsval option) \<Rightarrow> jsval \<Rightarrow> jsval \<Rightarrow> exn + jsval" where
  "get_computed inherited v key =
     and_then (ToString key) (\<lambda>k.
       if v = Undefined \<or> v = Null then Inl cannot_read
       else
         (case own_member v k of
            Some x \<Rightarrow> Inr x
          | None \<Rightarrow>
              (case inherited v k of
                 Some b \<Rightarrow> Inr b
               | None \<Rightarrow> Inr Undefined)))"

text \<open>\<open>o[k] = v\<close> on an object kept as the list of its properties.\<close>

definition put :: "(jsstring \<times> jsval) list \<Rightarrow> jsstring \<Rightarrow> jsval \<Rightarrow> (jsstring \<times> jsval) list" where
  "put ps k v =
     (if k \<in> fst ` set ps then map (\<lambda>(k', v'). if k' = k then (k', v) else (k', v')) ps
      else ps @ [(k, v)])"

text \<open>
  \<open>===\<close>. The program compares a property with a string or with \<open>undefined\<close> only;
  an array or an object equals nothing but itself, which never stands on the other
  side.
\<close>

fun strict_eq :: "jsval \<Rightarrow> jsval \<Rightarrow> bool" where
  "strict_eq Undefined Undefined = True"
| "strict_eq Null Null = True"
| "strict_eq (Bool a) (Bool b) = (a = b)"
| "strict_eq (Num a) (Num b) = (a = b)"
| "strict_eq (Str a) (Str b) = (a = b)"
| "strict_eq a b = False"

text \<open>
  \<open>xs.find(p)\<close>: the first element on which the callback is truthy, \<open>undefined\<close> when
  there is none; an exception of the callback ends the scan. On a value that is no
  array \<open>find\<close> is no function. \<open>opt_find\<close> is \<open>xs?.find(p)\<close>.
\<close>

fun find_first :: "(jsval \<Rightarrow> exn + bool) \<Rightarrow> jsval list \<Rightarrow> exn + jsval" where
  "find_first p [] = Inr Undefined"
| "find_first p (x # xs) =
     (case p x of
        Inl e \<Rightarrow> Inl e
      | Inr b \<Rightarrow> if b then Inr x else find_first p xs)"

definition call_find :: "jsval \<Rightarrow> (jsval \<Rightarrow> exn + bool) \<Rightarrow> exn + jsval" where
  "call_find v p =
     (case v of
        Arr xs \<Rightarrow> find_first p xs
      | Undefined \<Rightarrow> Inl cannot_read
      | Null \<Rightarrow> Inl cannot_read
      | _ \<Rightarrow> Inl not_a_function)"

definition opt_find :: "jsval \<Rightarrow> (jsval \<Rightarrow> exn + bool) \<Rightarrow> exn + jsval" where
  "opt_find v p = (if v = Undefined \<or> v = Null then Inr Undefined else call_find v p)"

text \<open>
  \<open>xs.forEach(f)\<close> and \<open>xs.reduce(f, init)\<close> with a callback that updates an
  accumulator: the elements in their order, an exception ending the loop.
\<close>

fun for_each :: "(jsval \<Rightarrow> 's \<Rightarrow> exn + 's) \<Rightarrow> jsval list \<Rightarrow> 's \<Rightarrow> exn + 's" where
  "for_each f [] s = Inr s"
| "for_each f (x # xs) s =
     (case f x s of
        Inl e \<Rightarrow> Inl e
      | Inr s' \<Rightarrow> for_each f xs s')"

definition call_for_each :: "jsval \<Rightarrow> (jsval \<Rightarrow> 's \<Rightarrow> exn + 's) \<Rightarrow> 's \<Rightarrow> exn + 's" where
  "call_for_each v f s =
     (case v of
        Arr xs \<Rightarrow> for_each f xs s
      | Undefined \<Rightarrow> Inl cannot_read
      | Null \<Rightarrow> Inl cannot_read
      | _ \<Rightarrow> Inl not_a_function)"

section \<open>The environment of a request\<close>

text \<open>
  What one run of the spawned interpreter delivers up to its \<open>close\<close> event: the
  chunks of the two streams in their order and the exit code (\<open>null\<close> when a signal
  ended the process). A child that cannot be started raises the \<open>error\<close> event, for
  which the program registers no listener; such a run is outside the model.
\<close>

record child =
  stdout_chunks :: "jsstring list"
  stderr_chunks :: "jsstring list"
  exit_code :: "int option"

text \<open>
  The collaborators outside the repository: the engine (\<open>toLowerCase\<close>,
  \<open>JSON.parse\<close>, \<open>new Date(v).getFullYear()\<close>, and \<open>prototype_member\<close>: the member
  that the prototype chain of a value has under a key, if any), \<open>path.join\<close> and
  \<open>__dirname\<close>, the file system, and the child process that \<open>spawn\<close> starts for a
  command and its arguments. A request reads them and changes nothing.
\<close>

record env =
  toLowerCase :: "jsstring \<Rightarrow> jsstring"
  JSON_parse :: "jsstring \<Rightarrow> exn + jsval"
  getFullYear :: "jsval \<Rightarrow> exn + jsval"
  prototype_member :: "jsval \<Rightarrow> jsstring \<Rightarrow> jsval option"
  path_join :: "jsstring list \<Rightarrow> jsstring"
  dirname :: jsstring
  readFileSync :: "jsstring \<Rightarrow> exn + jsstring"
  existsSync :: "jsstring \<Rightarrow> bool"
  spawn :: "jsstring \<Rightarrow> jsval list \<Rightarrow> child"

definition ROOT_DIR :: "env \<Rightarrow> jsstring" where
  "ROOT_DIR E = dirname E"

definition PUBLIC_DIR :: "env \<Rightarrow> jsstring" where
  "PUBLIC_DIR E = path_join E [ROOT_DIR E, js ''public'']"

definition DATA_DIR :: "env \<Rightarrow> jsstring" where
  "DATA_DIR E = path_join E [PUBLIC_DIR E, js ''data'']"

text \<open>
  A response: \<open>res.status(n).render(view, locals)\<close> or \<open>res.status(n).json(body)\<close>, the
  status 200 when none is set. The helper function \<open>slugify\<close> that some handlers hand
  to the template is no data and is left out of the locals.
\<close>

datatype response =
    Render nat jsstring "(jsstring \<times> jsval) list"
  | Json nat jsval

fun status :: "response \<Rightarrow> nat" where
  "status (Render n view locals) = n"
| "status (Json n body) = n"

fun locals_of :: "response \<Rightarrow> (jsstring \<times> jsval) list" where
  "locals_of (Render n view locals) = locals"
| "locals_of (Json n body) = []"

section \<open>Helpers of f1api.js\<close>

text \<open>
  \<open>async function readJSON(filePath) { try { return JSON.parse(fs.readFileSync(filePath,
  'utf8')); } catch { return null; } }\<close>
\<close>

definition readJSON :: "env \<Rightarrow> jsstring \<Rightarrow> exn + jsval" where
  "readJSON E filePath =
     (case and_then (readFileSync E filePath) (JSON_parse E) of
        Inl e \<Rightarrow> Inr Null
      | Inr v \<Rightarrow> Inr v)"

text \<open>
  \<open>runPython(scriptPath, args)\<close>: the promise is rejected when the script does not
  exist; otherwise the child is spawned, the chunks of each stream are appended, and
  on \<open>close\<close> the promise is rejected when \<open>code !== 0\<close> with the message
  \<open>stderr.trim() || `Python script exited with code ${code}`\<close>, and resolved with
  \<open>stdout\<close> otherwise. Writing \<open>stderr\<close> to the console changes no result and is
  left out.
\<close>

definition show_code :: "int option \<Rightarrow> jsstring" where
  "show_code c = (case c of None \<Rightarrow> js ''null'' | Some n \<Rightarrow> show_int n)"

definition runPython :: "env \<Rightarrow> jsstring \<Rightarrow> jsval list \<Rightarrow> exn + jsstring" where
  "runPython E scriptPath args =
     (if \<not> existsSync E scriptPath then
        Inl (Error (js ''Python script not found: '' @ scriptPath))
      else
        let pythonProcess =
              spawn E (js ''python'') ([Str (js ''-X''), Str (js ''utf8''), Str scriptPath] @ args);
            stdout = concat (stdout_chunks pythonProcess);
            stderr = concat (stderr_chunks pythonProcess);
            code = exit_code pythonProcess
        in if code \<noteq> Some 0 then
             Inl (Error (if trim stderr \<noteq> [] then trim stderr
                         else js ''Python script exited with code '' @ show_code code))
           else Inr stdout)"

text \<open>
  The year of a session, as \<open>fetchRaceTimingFromPython\<close> and the locations handler
  both compute it: \<open>session_year\<close>, or the year of \<open>date_start\<close> when that is missing.
\<close>

definition session_year :: "env \<Rightarrow> jsval \<Rightarrow> exn + jsval" where
  "session_year E sessionInfo =
     and_then (get sessionInfo (js ''session_year'')) (\<lambda>year.
     and_then (get sessionInfo (js ''date_start'')) (\<lambda>date_start.
       if (\<not> truthy year \<or> strict_eq year (Str (js ''undefined''))) \<and> truthy date_start
       then getFullYear E date_start
       else Inr year))"

definition incomplete_session :: "jsstring \<Rightarrow> jsstring \<Rightarrow> jsstring \<Rightarrow> exn" where
  "incomplete_session y e s =
     Error (js ''Incomplete session data from schedule.json: Year='' @ [0x27] @ y
            @ [0x27] @ js '', Event='' @ [0x27] @ e @ [0x27] @ js '', Session='' @ [0x27] @ s
            @ [0x27])"

text \<open>
  \<open>fetchRaceTimingFromPython(sessionInfo)\<close>. Its \<open>catch\<close> logs the exception and throws
  it again, so the exception leaves unchanged. \<open>new Error(parsed.error)\<close> coerces the
  field to the message.
\<close>

definition fetchRaceTimingFromPython :: "env \<Rightarrow> jsval \<Rightarrow> exn + jsval" where
  "fetchRaceTimingFromPython E sessionInfo =
     (let scriptPath = path_join E [ROOT_DIR E, js ''get_replay_data.py'']
      in if \<not> truthy sessionInfo then Inl (Error (js ''Session info cannot be null.''))
      else
        and_then (session_year E sessionInfo) (\<lambda>year.
        and_then (get sessionInfo (js ''meeting_name'')) (\<lambda>eventName.
        and_then (get sessionInfo (js ''session_name'')) (\<lambda>sessionName.
          if \<not> truthy year \<or> \<not> truthy eventName \<or> \<not> truthy sessionName then
            and_then (ToString year) (\<lambda>y.
            and_then (ToString eventName) (\<lambda>e.
            and_then (ToString sessionName) (\<lambda>s.
              Inl (incomplete_session y e s))))
          else
            and_then (ToString year) (\<lambda>y.
            and_then (runPython E scriptPath
                [Str (js ''race_times''), Str (js ''--year''), Str y, Str (js ''--event''),
                 eventName, Str (js ''--session''), sessionName]) (\<lambda>rawOutput.
            and_then (JSON_parse E rawOutput) (\<lambda>parsed.
              let err = opt_get parsed (js ''error'')
              in if truthy err then and_then (ToString err) (\<lambda>m. Inl (Error m))
                 else Inr parsed)))))))"

section \<open>GET /drivers/:driverId\<close>

text \<open>
  The messages of the view models are Korean text, given by their code units: the
  driver was not found; there is no further information on this driver; loading the
  driver data failed.
\<close>

definition msg_driver_not_found :: jsstring where
  "msg_driver_not_found =
     [0xB4DC, 0xB77C, 0xC774, 0xBC84, 0x20, 0xC815, 0xBCF4, 0xB97C, 0x20, 0xCC3E, 0xC744,
      0x20, 0xC218, 0x20, 0xC5C6, 0xC2B5, 0xB2C8, 0xB2E4, 0x2E]"

definition msg_no_description :: jsstring where
  "msg_no_description =
     [0xC774, 0x20, 0xB4DC, 0xB77C, 0xC774, 0xBC84, 0xC5D0, 0x20, 0xB300, 0xD55C, 0x20,
      0xCD94, 0xAC00, 0x20, 0xC815, 0xBCF4, 0xAC00, 0x20, 0xC5C6, 0xC2B5, 0xB2C8, 0xB2E4,
      0x2E]"

definition msg_driver_load_failed :: jsstring where
  "msg_driver_load_failed =
     [0xB4DC, 0xB77C, 0xC774, 0xBC84, 0x20, 0xB370, 0xC774, 0xD130, 0xB97C, 0x20, 0xBD88,
      0xB7EC, 0xC624, 0xB294, 0x20, 0xB370, 0x20, 0xC2E4, 0xD328, 0xD588, 0xC2B5, 0xB2C8,
      0xB2E4, 0x2E]"

text \<open>
  The view model without a driver, which the not-found state and the error state
  share but for the message.
\<close>

definition empty_driver_model :: "jsstring \<Rightarrow> (jsstring \<times> jsval) list" where
  "empty_driver_model msg =
     [(js ''info'', Null), (js ''description'', Null), (js ''season'', Obj []),
      (js ''career'', Obj []), (js ''error'', Str msg), (js ''currentPage'', Str (js ''drivers''))]"

definition driver_not_found :: response where
  "driver_not_found = Render 404 (js ''driver-detail'') (empty_driver_model msg_driver_not_found)"

definition driver_load_failed :: response where
  "driver_load_failed =
     Render 500 (js ''driver-detail'') (empty_driver_model msg_driver_load_failed)"

text \<open>The callback \<open>d => slugify(d.full_name) === driverId\<close>.\<close>

definition driver_matches :: "env \<Rightarrow> jsstring \<Rightarrow> jsval \<Rightarrow> exn + bool" where
  "driver_matches E driverId d =
     and_then (get d (js ''full_name'')) (\<lambda>full_name.
     and_then (slugify (toLowerCase E) full_name) (\<lambda>slug.
       Inr (slug = driverId)))"

text \<open>The handler from the line after the not-found test on, for the driver found.\<close>

definition driver_found :: "env \<Rightarrow> jsval \<Rightarrow> exn + response" where
  "driver_found E driver =
     and_then (readJSON E (path_join E [DATA_DIR E, js ''driver_descriptions.json'']))
       (\<lambda>driverDescriptions.
     and_then (get driver (js ''full_name'')) (\<lambda>full_name.
     and_then (get_computed (prototype_member E) driverDescriptions full_name)
       (\<lambda>described.
     and_then (slugify (toLowerCase E) full_name) (\<lambda>slug.
     and_then (readJSON E (path_join E [DATA_DIR E, js ''stats'', slug @ js ''.json'']))
       (\<lambda>driverStats.
       let description = (if truthy described then described else Str msg_no_description);
           season = opt_get driverStats (js ''season'');
           seasonStats = (if truthy season then season else Obj []);
           career = opt_get driverStats (js ''career'');
           careerStats = (if truthy career then career else Obj [])
       in Inr (Render 200 (js ''driver-detail'')
                 [(js ''info'', driver), (js ''description'', description),
                  (js ''season'', seasonStats), (js ''career'', careerStats),
                  (js ''error'', Null), (js ''currentPage'', Str (js ''drivers''))]))))))"

text \<open>
  The body of the \<open>try\<close> block, and the handler with its \<open>catch\<close>. The handler is the
  same in both source files.
\<close>

definition driver_detail_try :: "env \<Rightarrow> jsstring \<Rightarrow> exn + response" where
  "driver_detail_try E driverId =
     and_then (readJSON E (path_join E [DATA_DIR E, js ''drivers.json''])) (\<lambda>drivers.
     and_then (call_find drivers (driver_matches E driverId)) (\<lambda>driver.
       if \<not> truthy driver then Inr driver_not_found
       else driver_found E driver))"

definition driver_detail :: "env \<Rightarrow> jsstring \<Rightarrow> response" where
  "driver_detail E driverId =
     (case driver_detail_try E driverId of
        Inl e \<Rightarrow> driver_load_failed
      | Inr r \<Rightarrow> r)"

text \<open>
  A driver record, as the data model has it: an object; its \<open>full_name\<close> is a value
  that \<open>String\<close> can coerce (a string in the data files).
\<close>

fun driver_record :: "jsval \<Rightarrow> bool" where
  "driver_record (Obj ps) \<longleftrightarrow> \<not> shadows_toString (own ps (js ''full_name''))"
| "driver_record v \<longleftrightarrow> False"

section \<open>GET /replays/:session_key\<close>

text \<open>
  Korean messages by their code units: the session was not found; an error while
  loading the page (followed by a colon and a space).
\<close>

definition msg_session_not_found :: jsstring where
  "msg_session_not_found =
     [0xD574, 0xB2F9, 0x20, 0xC138, 0xC158, 0x20, 0xC815, 0xBCF4, 0xB97C, 0x20, 0xCC3E,
      0xC744, 0x20, 0xC218, 0x20, 0xC5C6, 0xC2B5, 0xB2C8, 0xB2E4, 0x2E]"

definition msg_page_load_error :: jsstring where
  "msg_page_load_error =
     [0xD398, 0xC774, 0xC9C0, 0x20, 0xB85C, 0xB4DC, 0x20, 0xC911, 0x20, 0xC624, 0xB958,
      0x20, 0xBC1C, 0xC0DD, 0x3A, 0x20]"

text \<open>The callback \<open>s => String(s.session_key) === session_key\<close> of both handlers.\<close>

definition session_matches :: "jsstring \<Rightarrow> jsval \<Rightarrow> exn + bool" where
  "session_matches session_key s =
     and_then (get s (js ''session_key'')) (\<lambda>k.
     and_then (ToString k) (\<lambda>t.
       Inr (t = session_key)))"

text \<open>
  \<open>sessionInfo.circuit_short_name?.toLowerCase().replace(/\s+/g, '-')\<close>: \<open>undefined\<close>
  for a missing or \<open>null\<close> name; a value that is no string has no \<open>toLowerCase\<close>.
\<close>

definition circuit_name :: "env \<Rightarrow> jsval \<Rightarrow> exn + jsval" where
  "circuit_name E sessionInfo =
     and_then (get sessionInfo (js ''circuit_short_name'')) (\<lambda>short_name.
       case short_name of
         Undefined \<Rightarrow> Inr Undefined
       | Null \<Rightarrow> Inr Undefined
       | Str s \<Rightarrow> Inr (Str (collapse_ws (toLowerCase E s)))
       | _ \<Rightarrow> Inl not_a_function)"

text \<open>The callback \<open>l => l.circuit_short_name === circuitName\<close>.\<close>

definition layout_matches :: "jsval \<Rightarrow> jsval \<Rightarrow> exn + bool" where
  "layout_matches circuitName l =
     and_then (get l (js ''circuit_short_name'')) (\<lambda>short_name.
       Inr (strict_eq short_name circuitName))"

text \<open>
  The probe for the track image: the \<open>for\<close> loop over the extensions, left at the
  first file that exists, inside \<open>if (circuitName)\<close>.
\<close>

definition possibleExtensions :: "jsstring list" where
  "possibleExtensions = [js ''avif'', js ''png'', js ''webp'', js ''jpg'', js ''jpeg'']"

definition image_name :: "jsstring \<Rightarrow> jsstring \<Rightarrow> jsstring" where
  "image_name circuitName ext = circuitName @ js ''.'' @ ext"

definition image_path :: "env \<Rightarrow> jsstring \<Rightarrow> jsstring \<Rightarrow> jsstring" where
  "image_path E circuitName ext =
     path_join E [PUBLIC_DIR E, js ''images'', js ''tracks'', image_name circuitName ext]"

fun probe :: "env \<Rightarrow> jsstring \<Rightarrow> jsstring list \<Rightarrow> jsval" where
  "probe E circuitName [] = Null"
| "probe E circuitName (ext # exts) =
     (if existsSync E (image_path E circuitName ext)
      then Str (js ''/images/tracks/'' @ image_name circuitName ext)
      else probe E circuitName exts)"

definition track_image_url :: "env \<Rightarrow> jsval \<Rightarrow> jsval" where
  "track_image_url E circuitName =
     (if truthy circuitName then
        (case circuitName of
           Str name \<Rightarrow> probe E name possibleExtensions
         | _ \<Rightarrow> Null)
      else Null)"

text \<open>
  The directory of drivers by car number. \<open>team_info\<close> is the callback of
  \<open>f1Teams.reduce\<close>, \<open>driver_entry\<close> the callback of \<open>drivers.forEach\<close>; both loops run
  only when \<open>drivers && f1Teams\<close>.
\<close>

definition team_info ::
  "jsval \<Rightarrow> (jsstring \<times> jsval) list \<Rightarrow> exn + (jsstring \<times> jsval) list" where
  "team_info team acc =
     and_then (get team (js ''name'')) (\<lambda>name.
     and_then (ToString name) (\<lambda>k.
     and_then (get team (js ''teamColor'')) (\<lambda>teamColor.
       Inr (put acc k (Obj [(js ''color'', teamColor)])))))"

definition driver_entry ::
  "(jsstring \<times> jsval) list \<Rightarrow> jsval \<Rightarrow> (jsstring \<times> jsval) list
     \<Rightarrow> exn + (jsstring \<times> jsval) list" where
  "driver_entry teamInfoMap d driverDirectory =
     and_then (get d (js ''number'')) (\<lambda>number.
       if truthy number then
         and_then (ToString number) (\<lambda>k.
         and_then (get d (js ''full_name'')) (\<lambda>full_name.
         and_then (get d (js ''team_name'')) (\<lambda>team_name.
         and_then (ToString team_name) (\<lambda>t.
           let color = opt_get (own teamInfoMap t) (js ''color'')
           in Inr (put driverDirectory k
                (Obj [(js ''full_name'', full_name),
                      (js ''team_colour'',
                       if truthy color then color else Str (js ''#FFFFFF''))]))))))
       else Inr driverDirectory)"

definition driver_directory :: "jsval \<Rightarrow> jsval \<Rightarrow> exn + (jsstring \<times> jsval) list" where
  "driver_directory drivers f1Teams =
     (if truthy drivers \<and> truthy f1Teams then
        and_then (call_for_each f1Teams team_info []) (\<lambda>teamInfoMap.
          call_for_each drivers (driver_entry teamInfoMap) [])
      else Inr [])"

text \<open>
  \<open>finalSessionInfo\<close>: the spread of the session with \<open>trackImageUrl\<close> and \<open>layout\<close>,
  then the three fields of the race timing where they are truthy.
\<close>

definition final_session_info ::
  "jsval \<Rightarrow> jsval \<Rightarrow> jsval \<Rightarrow> jsval \<Rightarrow> (jsstring \<times> jsval) list" where
  "final_session_info sessionInfo trackImageUrl layout raceTiming =
     (let o0 = put (put (own_props sessionInfo) (js ''trackImageUrl'') trackImageUrl)
                 (js ''layout'') layout;
          race_start_date = opt_get raceTiming (js ''race_start_date'');
          o1 = (if truthy race_start_date then put o0 (js ''date_start'') race_start_date
                else o0);
          race_end_date = opt_get raceTiming (js ''race_end_date'');
          o2 = (if truthy race_end_date then put o1 (js ''race_end_date'') race_end_date
                else o1);
          all_messages = opt_get raceTiming (js ''all_messages'')
      in if truthy all_messages then put o2 (js ''race_control_messages'') all_messages
         else o2)"

definition replay_page ::
  "jsstring \<Rightarrow> (jsstring \<times> jsval) list \<Rightarrow> (jsstring \<times> jsval) list \<Rightarrow> response" where
  "replay_page session_key driverDirectory finalSessionInfo =
     Render 200 (js ''race-tracker'')
       [(js ''session_key'', Str session_key), (js ''driverDirectory'', Obj driverDirectory),
        (js ''sessionInfo'', Obj finalSessionInfo), (js ''currentPage'', Str (js ''schedule'')),
        (js ''error'', Null)]"

definition session_not_found :: response where
  "session_not_found =
     Render 404 (js ''race-tracker'') [(js ''error'', Str msg_session_not_found)]"

definition replay_failed :: "jsstring \<Rightarrow> exn \<Rightarrow> response" where
  "replay_failed session_key e =
     Render 500 (js ''race-tracker'')
       [(js ''session_key'', Str session_key), (js ''driverDirectory'', Obj []),
        (js ''sessionInfo'', Null), (js ''error'', Str (msg_page_load_error @ message e)),
        (js ''currentPage'', Str (js ''schedule''))]"

text \<open>
  The handler of f1api.js after the not-found test: circuit name, layout, image probe,
  then the three calls under \<open>Promise.all\<close> (the two reads never reject, so the
  rejection of the whole is that of the race-timing fetch), the directory and the
  page.
\<close>

definition replay_found :: "env \<Rightarrow> jsstring \<Rightarrow> jsval \<Rightarrow> jsval \<Rightarrow> exn + response" where
  "replay_found E session_key layouts sessionInfo =
     and_then (circuit_name E sessionInfo) (\<lambda>circuitName.
     and_then (opt_find layouts (layout_matches circuitName)) (\<lambda>layout.
       let trackImageUrl = track_image_url E circuitName
       in
     and_then (readJSON E (path_join E [DATA_DIR E, js ''drivers.json''])) (\<lambda>drivers.
     and_then (readJSON E (path_join E [ROOT_DIR E, js ''f1_team.json''])) (\<lambda>f1Teams.
     and_then (fetchRaceTimingFromPython E sessionInfo) (\<lambda>raceTiming.
     and_then (driver_directory drivers f1Teams) (\<lambda>driverDirectory.
       Inr (replay_page session_key driverDirectory
              (final_session_info sessionInfo trackImageUrl layout raceTiming))))))))"

definition replay_try :: "env \<Rightarrow> jsstring \<Rightarrow> exn + response" where
  "replay_try E session_key =
     and_then (readJSON E (path_join E [DATA_DIR E, js ''schedule.json''])) (\<lambda>schedule.
     and_then (readJSON E (path_join E [DATA_DIR E, js ''track_layouts.json''])) (\<lambda>layouts.
     and_then (opt_find schedule (session_matches session_key)) (\<lambda>found.
       let sessionInfo = (if truthy found then found else Null)
       in if \<not> truthy sessionInfo then Inr session_not_found
          else replay_found E session_key layouts sessionInfo)))"

definition replay :: "env \<Rightarrow> jsstring \<Rightarrow> response" where
  "replay E session_key =
     (case replay_try E session_key of
        Inl e \<Rightarrow> replay_failed session_key e
      | Inr r \<Rightarrow> r)"

text \<open>
  A record of the schedule or of the track layouts, as the data model has them: an
  object; the \<open>session_key\<close> of a session is a value that \<open>String\<close> can coerce (a number
  in the data files).
\<close>

fun session_record :: "jsval \<Rightarrow> bool" where
  "session_record (Obj ps) \<longleftrightarrow> \<not> shadows_toString (own ps (js ''session_key''))"
| "session_record v \<longleftrightarrow> False"

fun layout_record :: "jsval \<Rightarrow> bool" where
  "layout_record (Obj ps) \<longleftrightarrow> True"
| "layout_record v \<longleftrightarrow> False"

section \<open>GET /api/locations/:session_key/:startTime/:endTime\<close>

text \<open>
  Korean messages by their code units: (the script) could not be found; a server
  error during the data query; parsing the script result failed.
\<close>

definition msg_script_not_found :: jsstring where
  "msg_script_not_found =
     [0x20, 0xC2A4, 0xD06C, 0xB9BD, 0xD2B8, 0xB97C, 0x20, 0xCC3E, 0xC744, 0x20, 0xC218,
      0x20, 0xC5C6, 0xC2B5, 0xB2C8, 0xB2E4, 0x2E]"

definition msg_query_failed :: jsstring where
  "msg_query_failed =
     [0xB370, 0xC774, 0xD130, 0x20, 0xC870, 0xD68C, 0x20, 0xC911, 0x20, 0xC11C, 0xBC84,
      0x20, 0xC624, 0xB958, 0x20, 0xBC1C, 0xC0DD]"

definition msg_parse_failed :: jsstring where
  "msg_parse_failed =
     [0xC2A4, 0xD06C, 0xB9BD, 0xD2B8, 0x20, 0xACB0, 0xACFC, 0x20, 0xD30C, 0xC2F1, 0x20,
      0xC2E4, 0xD328]"

definition json_error :: "nat \<Rightarrow> jsstring \<Rightarrow> response" where
  "json_error n msg = Json n (Obj [(js ''error'', Str msg)])"

text \<open>The handler of f1api.js: the session is looked up in the schedule first.\<close>

definition locations_try :: "env \<Rightarrow> jsstring \<Rightarrow> jsstring \<Rightarrow> jsstring \<Rightarrow> exn + response" where
  "locations_try E session_key startTime endTime =
     and_then (readJSON E (path_join E [DATA_DIR E, js ''schedule.json''])) (\<lambda>schedule.
     and_then (opt_find schedule (session_matches session_key)) (\<lambda>sessionInfo.
       if \<not> truthy sessionInfo then
         Inr (json_error 404 (js ''Session info not found for the given key.''))
       else
         and_then (session_year E sessionInfo) (\<lambda>year.
         and_then (get sessionInfo (js ''meeting_name'')) (\<lambda>eventName.
         and_then (get sessionInfo (js ''session_name'')) (\<lambda>sessionName.
           if \<not> truthy year \<or> \<not> truthy eventName \<or> \<not> truthy sessionName then
             Inr (json_error 500 (js ''Incomplete session data to fetch locations.''))
           else
             let scriptPath = path_join E [ROOT_DIR E, js ''get_driver_locations.py'']
             in if \<not> existsSync E scriptPath then
                  Inr (json_error 500 (js ''get_driver_locations.py'' @ msg_script_not_found))
                else
                  and_then (ToString year) (\<lambda>y.
                  and_then (runPython E scriptPath
                      [Str y, eventName, sessionName, Str startTime, Str endTime]) (\<lambda>output.
                  and_then (JSON_parse E output) (\<lambda>parsed.
                    Inr (Json 200 parsed)))))))))"

definition locations :: "env \<Rightarrow> jsstring \<Rightarrow> jsstring \<Rightarrow> jsstring \<Rightarrow> response" where
  "locations E session_key startTime endTime =
     (case locations_try E session_key startTime endTime of
        Inl e \<Rightarrow>
          json_error 500 (js ''Internal server error while fetching locations: '' @ message e)
      | Inr r \<Rightarrow> r)"

text \<open>
  The handler of the second source file (the router module): it does not read the
  schedule and hands the session key to the script as its first argument.
\<close>

definition locations_router :: "env \<Rightarrow> jsstring \<Rightarrow> jsstring \<Rightarrow> jsstring \<Rightarrow> response" where
  "locations_router E session_key startTime endTime =
     (let scriptPath = path_join E [ROOT_DIR E, js ''get_driver_locations.py'']
      in if \<not> existsSync E scriptPath then
           json_error 500 (js ''get_driver_locations.py'' @ msg_script_not_found)
         else
           let pythonProcess =
                 spawn E (js ''python'')
                   [Str (js ''-X''), Str (js ''utf8''), Str scriptPath, Str session_key,
                    Str startTime, Str endTime];
               output = concat (stdout_chunks pythonProcess)
           in if exit_code pythonProcess \<noteq> Some 0 then json_error 500 msg_query_failed
              else (case JSON_parse E output of
                      Inl e \<Rightarrow> json_error 500 msg_parse_failed
                    | Inr parsed \<Rightarrow> Json 200 parsed))"

section \<open>A sample installation\<close>

text \<open>
  A concrete environment on which the handlers are run: the application in \<open>/app\<close>,
  paths joined with a slash, \<open>toLowerCase\<close> on ASCII, a file system given by the list
  of its files, one fixed run for every spawned child, and \<open>JSON.parse\<close> on the few
  texts that occur (any other text is a syntax error).
\<close>

fun sample_join :: "jsstring list \<Rightarrow> jsstring" where
  "sample_join [] = []"
| "sample_join [s] = s"
| "sample_join (s # t # ss) = s @ js ''/'' @ sample_join (t # ss)"

definition drivers_text :: jsstring where
  \<open>drivers_text =
     js ''[{"full_name":"Max Verstappen","number":1},{"full_name":"MAX  verstappen!","number":33}]''\<close>

definition drivers_value :: jsval where
  "drivers_value =
     Arr [Obj [(js ''full_name'', Str (js ''Max Verstappen'')), (js ''number'', Num 1)],
          Obj [(js ''full_name'', Str (js ''MAX  verstappen!'')), (js ''number'', Num 33)]]"

definition schedule_text :: jsstring where
  \<open>schedule_text =
     js ''[{"session_key":9472,"circuit_short_name":"Bahrain","meeting_name":"Bahrain Grand Prix","session_name":"Race","session_year":2024}]''\<close>

definition schedule_value :: jsval where
  "schedule_value =
     Arr [Obj [(js ''session_key'', Num 9472), (js ''circuit_short_name'', Str (js ''Bahrain'')),
               (js ''meeting_name'', Str (js ''Bahrain Grand Prix'')),
               (js ''session_name'', Str (js ''Race'')), (js ''session_year'', Num 2024)]]"

definition layouts_text :: jsstring where
  \<open>layouts_text = js ''[{"circuit_short_name":"monza"}]''\<close>

definition layouts_value :: jsval where
  "layouts_value = Arr [Obj [(js ''circuit_short_name'', Str (js ''monza''))]]"

definition timing_text :: jsstring where
  \<open>timing_text = js ''{"race_start_date":"2024-03-02T15:00:00"}''\<close>

definition timing_value :: jsval where
  "timing_value = Obj [(js ''race_start_date'', Str (js ''2024-03-02T15:00:00''))]"

definition failure_text :: jsstring where
  \<open>failure_text = js ''{"error":"no data"}''\<close>

definition failure_value :: jsval where
  "failure_value = Obj [(js ''error'', Str (js ''no data''))]"

definition empty_error_text :: jsstring where
  \<open>empty_error_text = js ''{"error":""}''\<close>

definition empty_error_value :: jsval where
  "empty_error_value = Obj [(js ''error'', Str [])]"

definition sample_parse :: "jsstring \<Rightarrow> exn + jsval" where
  "sample_parse t =
     (case map_of
        [(drivers_text, drivers_value), (schedule_text, schedule_value),
         (layouts_text, layouts_value), (timing_text, timing_value),
         (failure_text, failure_value), (empty_error_text, empty_error_value),
         (js ''{}'', Obj []), (js ''[]'', Arr [])] t of
        None \<Rightarrow> Inl (SyntaxError (js ''Unexpected token''))
      | Some v \<Rightarrow> Inr v)"

text \<open>
  The members of \<open>Object.prototype\<close>, which every value but \<open>null\<close> and \<open>undefined\<close>
  inherits, each with the text that \<open>String\<close> gives for it: the functions, and under
  \<open>__proto__\<close> the prototype itself. (The sample reads computed keys on objects only,
  so the further members of arrays, strings and numbers are not listed.)
\<close>

definition native :: "string \<Rightarrow> jsval" where
  "native name = Builtin (js ''function '' @ js name @ js ''() { [native code] }'')"

definition object_prototype :: "(jsstring \<times> jsval) list" where
  "object_prototype =
     [(js ''constructor'', native ''Object''),
      (js ''__defineGetter__'', native ''__defineGetter__''),
      (js ''__defineSetter__'', native ''__defineSetter__''),
      (js ''hasOwnProperty'', native ''hasOwnProperty''),
      (js ''__lookupGetter__'', native ''__lookupGetter__''),
      (js ''__lookupSetter__'', native ''__lookupSetter__''),
      (js ''isPrototypeOf'', native ''isPrototypeOf''),
      (js ''propertyIsEnumerable'', native ''propertyIsEnumerable''),
      (js ''toString'', native ''toString''),
      (js ''valueOf'', native ''valueOf''),
      (js ''toLocaleString'', native ''toLocaleString''),
      (js ''__proto__'', Builtin (js ''[object Object]''))]"

definition sample_env :: "(jsstring \<times> jsstring) list \<Rightarrow> child \<Rightarrow> env" where
  "sample_env files run =
     \<lparr> toLowerCase = ascii_lower,
       JSON_parse = sample_parse,
       getFullYear = (\<lambda>v. Inr NaN),
       prototype_member = (\<lambda>v k. map_of object_prototype k),
       path_join = sample_join,
       dirname = js ''/app'',
       readFileSync =
         (\<lambda>p. case map_of files p of
                None \<Rightarrow> Inl (Error (js ''ENOENT: no such file or directory''))
              | Some t \<Rightarrow> Inr t),
       existsSync = (\<lambda>p. p \<in> fst ` set files),
       spawn = (\<lambda>command args. run) \<rparr>"

definition sample_files :: "(jsstring \<times> jsstring) list" where
  "sample_files =
     [(js ''/app/public/data/drivers.json'', drivers_text),
      (js ''/app/public/data/schedule.json'', schedule_text),
      (js ''/app/public/data/track_layouts.json'', layouts_text),
      (js ''/app/public/data/driver_descriptions.json'', js ''{}''),
      (js ''/app/public/images/tracks/bahrain.png'', []),
      (js ''/app/public/images/tracks/bahrain.jpg'', []),
      (js ''/app/get_replay_data.py'', []),
      (js ''/app/get_driver_locations.py'', [])]"

definition run_ok :: "jsstring \<Rightarrow> child" where
  "run_ok out =
     \<lparr> stdout_chunks = [take 5 out, drop 5 out],
       stderr_chunks = [js ''warning: cache miss'', [0xA]],
       exit_code = Some 0 \<rparr>"

definition run_failed :: "jsstring \<Rightarrow> int option \<Rightarrow> child" where
  "run_failed err code =
     \<lparr> stdout_chunks = [js ''partial''], stderr_chunks = [err], exit_code = code \<rparr>"

section \<open>The slug deriver\<close>

lemma slug_char_not_space: "is_slug_char c \<Longrightarrow> \<not> is_space c"
  unfolding is_slug_char_def is_lower_def is_digit_def hyphen_def is_space_def
  by (auto simp: word_le_nat_alt)

lemma slug_char_in_class: "is_slug_char c \<Longrightarrow> in_slug_class c"
  by (auto simp: is_slug_char_def in_slug_class_def)

lemma set_collapse_ws: "set (collapse_ws s) \<subseteq> {c \<in> set s. \<not> is_space c} \<union> {hyphen}"
proof (induction s rule: collapse_ws.induct)
  case 1
  show ?case by simp
next
  case (2 c cs)
  show ?case
  proof (cases "is_space c")
    case True
    with 2 have "set (collapse_ws (dropWhile is_space cs)) \<subseteq> {c \<in> set (dropWhile is_space cs). \<not> is_space c} \<union> {hyphen}"
      by simp
    moreover have "set (dropWhile is_space cs) \<subseteq> set cs"
      by (auto dest: set_dropWhileD)
    ultimately show ?thesis using True by auto
  next
    case False
    with 2 show ?thesis by auto
  qed
qed

lemma collapse_ws_no_space: "\<forall>c\<in>set s. \<not> is_space c \<Longrightarrow> collapse_ws s = s"
  by (induction s) auto

lemma trim_no_space: "\<forall>c\<in>set s. \<not> is_space c \<Longrightarrow> trim s = s"
proof -
  assume a: "\<forall>c\<in>set s. \<not> is_space c"
  have d: "\<And>xs. \<forall>c\<in>set xs. \<not> is_space c \<Longrightarrow> dropWhile is_space xs = xs"
    by (case_tac xs) auto
  show ?thesis using a by (simp add: trim_def d)
qed

lemma strip_others_slug: "\<forall>c\<in>set s. is_slug_char c \<Longrightarrow> strip_others s = s"
  by (simp add: strip_others_def slug_char_in_class)

lemma slugify_text_chars: "c \<in> set (slugify_text lower t) \<Longrightarrow> is_slug_char c"
proof -
  assume "c \<in> set (slugify_text lower t)"
  then have "c \<in> {c \<in> set (strip_others (trim (lower t))). \<not> is_space c} \<union> {hyphen}"
    using set_collapse_ws unfolding slugify_text_def by blast
  then show ?thesis
    by (auto simp: strip_others_def in_slug_class_def is_slug_char_def)
qed

lemma slugify_text_fixed:
  assumes "\<forall>c\<in>set s. is_slug_char c" "lower s = s"
  shows "slugify_text lower s = s"
proof -
  have ns: "\<forall>c\<in>set s. \<not> is_space c" using assms(1) slug_char_not_space by blast
  show ?thesis
    unfolding slugify_text_def
    by (simp add: assms(2) trim_no_space [OF ns] strip_others_slug [OF assms(1)] collapse_ws_no_space [OF ns])
qed

lemma no_double_collapse: "hyphen \<notin> set s \<Longrightarrow> no_double_hyphen (collapse_ws s)"
proof (induction s rule: collapse_ws.induct)
  case 1
  show ?case by simp
next
  case (2 c cs)
  show ?case
  proof (cases "is_space c")
    case True
    let ?r = "dropWhile is_space cs"
    have sub: "set ?r \<subseteq> set cs" by (auto dest: set_dropWhileD)
    with 2 True have ih: "no_double_hyphen (collapse_ws ?r)" by auto
    have e: "collapse_ws (c # cs) = hyphen # collapse_ws ?r" using True by simp
    show ?thesis
    proof (cases ?r)
      case Nil
      show ?thesis unfolding e Nil by simp
    next
      case (Cons d ds)
      then have "\<not> is_space d" using hd_dropWhile [of is_space cs] by auto
      moreover have "d \<noteq> hyphen" using Cons sub 2(3) by auto
      ultimately show ?thesis using ih [unfolded Cons] unfolding e Cons by simp
    qed
  next
    case False
    have ih: "no_double_hyphen (collapse_ws cs)" using 2 False by auto
    have "c \<noteq> hyphen" using 2(3) by auto
    then show ?thesis using False ih by (cases "collapse_ws cs") auto
  qed
qed

lemma ascii_lower_slug: "\<forall>c\<in>set s. is_slug_char c \<Longrightarrow> ascii_lower s = s"
  unfolding ascii_lower_def is_slug_char_def is_lower_def is_digit_def hyphen_def
  by (induction s) (auto simp: word_le_nat_alt)

lemma set_trim: "set (trim s) \<subseteq> set s"
proof -
  have "set (trim s) = set (dropWhile is_space (rev (dropWhile is_space s)))"
    by (simp add: trim_def)
  also have "\<dots> \<subseteq> set (rev (dropWhile is_space s))"
    by (auto dest: set_dropWhileD)
  also have "\<dots> \<subseteq> set s"
    by (auto dest: set_dropWhileD)
  finally show ?thesis .
qed

lemma set_strip_trim: "set (strip_others (trim s)) \<subseteq> set s"
  using set_trim [of s] by (auto simp: strip_others_def)

lemma slugify_Str: "slugify lower (Str t) = Inr (slugify_text lower t)"
  by (cases "t = []") (simp_all add: slugify_def)

text \<open>
  C1 (as amended). For every input text and every \<open>toLowerCase\<close> that leaves text over
  lowercase letters, digits and hyphens as it is, \<open>slugify\<close> returns a string of
  lowercase letters, digits and hyphens only, and applying it to its own result gives
  that result again. The hyphens of the input are kept: when the lowercased input has
  no hyphen the result has no two hyphens side by side (each run of white space gives
  one), and when it has neither hyphen nor white space the result has no hyphen.
\<close>

theorem slugify_shape_and_idempotent:
  assumes lower_fixes_slugs: "\<forall>s. list_all is_slug_char s \<longrightarrow> lower s = s"
  shows "\<exists>r. slugify lower (Str t) = Inr r
           \<and> list_all is_slug_char r
           \<and> slugify lower (Str r) = Inr r
           \<and> (hyphen \<notin> set (lower t) \<longrightarrow> no_double_hyphen r)
           \<and> (hyphen \<notin> set (lower t) \<and> \<not> list_ex is_space (lower t) \<longrightarrow> hyphen \<notin> set r)"
proof -
  let ?r = "slugify_text lower t"
  have chars: "list_all is_slug_char ?r"
    by (simp add: list_all_iff slugify_text_chars)
  then have fixed: "lower ?r = ?r"
    using lower_fixes_slugs by blast
  have idem: "slugify_text lower ?r = ?r"
    using chars fixed by (intro slugify_text_fixed) (simp_all add: list_all_iff)
  have nodouble: "no_double_hyphen ?r" if "hyphen \<notin> set (lower t)"
  proof -
    have "hyphen \<notin> set (strip_others (trim (lower t)))"
      using that set_strip_trim [of "lower t"] by blast
    then show ?thesis
      unfolding slugify_text_def by (rule no_double_collapse)
  qed
  have nohyphen: "hyphen \<notin> set ?r"
    if "hyphen \<notin> set (lower t)" and "\<not> list_ex is_space (lower t)"
  proof -
    let ?m = "strip_others (trim (lower t))"
    have sub: "set ?m \<subseteq> set (lower t)" by (rule set_strip_trim)
    have "\<forall>c\<in>set ?m. \<not> is_space c"
      using that(2) sub by (auto simp: list_ex_iff)
    then have "?r = ?m"
      unfolding slugify_text_def by (rule collapse_ws_no_space)
    then show ?thesis using that(1) sub by auto
  qed
  show ?thesis
    using chars idem nodouble nohyphen by (simp add: slugify_Str)
qed

lemma ascii_lower_fixes: "\<forall>s. list_all is_slug_char s \<longrightarrow> ascii_lower s = s"
  by (simp add: list_all_iff ascii_lower_slug)

lemmas sample_eval =
  sample_env_def sample_files_def sample_parse_def drivers_text_def drivers_value_def
  schedule_text_def schedule_value_def layouts_text_def layouts_value_def timing_text_def
  timing_value_def failure_text_def failure_value_def empty_error_text_def
  empty_error_value_def run_ok_def run_failed_def ROOT_DIR_def PUBLIC_DIR_def DATA_DIR_def

lemmas slug_eval =
  slugify_def slugify_text_def trim_def strip_others_def in_slug_class_def js_def
  ascii_lower_def is_space_def is_lower_def is_digit_def is_slug_char_def hyphen_def

theorem slugify_shape_and_idempotent_witness:
  "slugify ascii_lower (Str (js ''  Max Verstappen! '')) = Inr (js ''max-verstappen'')
   \<and> list_all is_slug_char (js ''max-verstappen'')
   \<and> slugify ascii_lower (Str (js ''max-verstappen'')) = Inr (js ''max-verstappen'')
   \<and> hyphen \<notin> set (ascii_lower (js ''  Max Verstappen! ''))
   \<and> no_double_hyphen (js ''max-verstappen'')"
  using slugify_shape_and_idempotent [OF ascii_lower_fixes, of "js ''  Max Verstappen! ''"]
  by (simp add: slug_eval)

text \<open>
  The input \<open>-a--b-\<close> has no white space, so collapsing white space introduces
  nothing; its slug is \<open>-a--b-\<close>, with a leading, a trailing and two adjacent
  hyphens.
\<close>

theorem slugify_keeps_input_hyphens:
  "\<not> list_ex is_space (js ''-a--b-'')
   \<and> slugify ascii_lower (Str (js ''-a--b-'')) = Inr (js ''-a--b-'')
   \<and> \<not> no_double_hyphen (js ''-a--b-'')
   \<and> hd (js ''-a--b-'') = hyphen \<and> last (js ''-a--b-'') = hyphen"
  by (simp add: slug_eval)

lemma ToString_throws:
  "(shadows_toString v \<longrightarrow> ToString v = Inl cannot_convert)
   \<and> (\<not> shadows_toString v \<longrightarrow> (\<exists>s. ToString v = Inr s))"
  and join_elems_throws:
  "((\<exists>v\<in>set vs. shadows_toString v) \<longrightarrow> join_elems vs = Inl cannot_convert)
   \<and> (\<not> (\<exists>v\<in>set vs. shadows_toString v) \<longrightarrow> (\<exists>s. join_elems vs = Inr s))"
proof (induction v and vs rule: ToString_join_elems.induct)
  case (11 v vs)
  then show ?case
    by (cases "v = Undefined \<or> v = Null"; cases "shadows_toString v"; cases "vs = []";
        cases "\<exists>v\<in>set vs. shadows_toString v") (auto split: sum.splits)
qed auto

text \<open>
  C10 (as amended). With \<open>toLowerCase\<close> mapping the empty string to itself,
  \<open>slugify\<close> returns the empty string for \<open>null\<close>, \<open>undefined\<close> and every other falsy
  value, and works on the string coercion of any other value whose coercion succeeds;
  it throws exactly on the values whose coercion throws: an object with an own
  \<open>toString\<close> property, or an array holding one.
\<close>

theorem slugify_total_unless_coercion_throws:
  assumes lower_empty: "lower [] = []"
  shows "(\<not> truthy v \<longrightarrow> slugify lower v = Inr [])
   \<and> (truthy v \<and> \<not> shadows_toString v \<longrightarrow>
        (\<exists>s. ToString v = Inr s \<and> slugify lower v = Inr (slugify_text lower s)))
   \<and> ((\<exists>e. slugify lower v = Inl e) \<longleftrightarrow> shadows_toString v)"
proof -
  have sh: "shadows_toString v \<Longrightarrow> truthy v" by (cases v) auto
  have "slugify_text lower [] = []"
    by (simp add: slugify_text_def trim_def strip_others_def lower_empty)
  hence a: "\<not> truthy v \<longrightarrow> slugify lower v = Inr []"
    by (simp add: slugify_def)
  show ?thesis
    using a ToString_throws [of v] sh
    by (cases "truthy v"; cases "shadows_toString v") (auto simp: slugify_def)
qed

theorem slugify_total_unless_coercion_throws_witness:
  "\<not> truthy (Num 0) \<and> slugify ascii_lower (Num 0) = Inr []
   \<and> truthy (Num 44) \<and> \<not> shadows_toString (Num 44)
   \<and> ToString (Num 44) = Inr (js ''44'') \<and> slugify ascii_lower (Num 44) = Inr (js ''44'')"
  using slugify_total_unless_coercion_throws [of ascii_lower "Num 0"]
    slugify_total_unless_coercion_throws [of ascii_lower "Num 44"]
  by (simp add: slug_eval show_int_def)

text \<open>
  The object read from the JSON text \<open>{"toString": 1}\<close> is truthy, and \<open>slugify\<close>
  throws a TypeError on it.
\<close>

theorem slugify_throws_on_shadowed_toString:
  "truthy (Obj [(js ''toString'', Num 1)])
   \<and> slugify ascii_lower (Obj [(js ''toString'', Num 1)]) = Inl cannot_convert"
  by (simp add: slugify_def)

section \<open>The data loader\<close>

lemma readJSON_total: "\<exists>v. readJSON E p = Inr v"
  by (cases "and_then (readFileSync E p) (JSON_parse E)") (simp_all add: readJSON_def)

text \<open>
  C5. For every file path \<open>readJSON\<close> returns a value and never an exception: the
  parsed content when the file can be read and its text parses, and \<open>null\<close> when the
  read fails (the file is missing) or the text is not valid JSON.
\<close>

theorem readJSON_never_throws:
  "(\<exists>v. readJSON E p = Inr v)
   \<and> (\<forall>t v. readFileSync E p = Inr t \<and> JSON_parse E t = Inr v \<longrightarrow> readJSON E p = Inr v)
   \<and> ((\<exists>e. readFileSync E p = Inl e) \<longrightarrow> readJSON E p = Inr Null)
   \<and> (\<forall>t. readFileSync E p = Inr t \<and> (\<exists>e. JSON_parse E t = Inl e)
          \<longrightarrow> readJSON E p = Inr Null)"
  by (auto simp: readJSON_def and_then_def split: sum.splits)

theorem readJSON_never_throws_witness:
  "readFileSync (sample_env sample_files (run_ok [])) (js ''/app/public/data/drivers.json'')
     = Inr drivers_text
   \<and> JSON_parse (sample_env sample_files (run_ok [])) drivers_text = Inr drivers_value
   \<and> readJSON (sample_env sample_files (run_ok [])) (js ''/app/public/data/drivers.json'')
     = Inr drivers_value
   \<and> readFileSync (sample_env sample_files (run_ok [])) (js ''/app/f1_team.json'')
     = Inl (Error (js ''ENOENT: no such file or directory''))
   \<and> readJSON (sample_env sample_files (run_ok [])) (js ''/app/f1_team.json'') = Inr Null
   \<and> readFileSync (sample_env sample_files (run_ok [])) (js ''/app/get_replay_data.py'')
     = Inr []
   \<and> JSON_parse (sample_env sample_files (run_ok [])) []
     = Inl (SyntaxError (js ''Unexpected token''))
   \<and> readJSON (sample_env sample_files (run_ok [])) (js ''/app/get_replay_data.py'')
     = Inr Null"
  using readJSON_never_throws [of "sample_env sample_files (run_ok [])"
      "js ''/app/public/data/drivers.json''"]
    readJSON_never_throws [of "sample_env sample_files (run_ok [])" "js ''/app/f1_team.json''"]
    readJSON_never_throws [of "sample_env sample_files (run_ok [])"
      "js ''/app/get_replay_data.py''"]
  by (simp add: sample_eval readJSON_def and_then_def js_def)

section \<open>The external process bridge\<close>

text \<open>
  C3. For every script path and argument list, \<open>runPython\<close> resolves exactly when the
  script exists and the process exits with code zero, and then with all of the
  captured standard output, whatever stood on standard error; when the process ends
  with any other code it rejects with a non-empty message: the trimmed standard error
  when that is not empty, else a message naming the exit code.
\<close>

theorem runPython_settles_by_exit_code:
  "(let run = spawn E (js ''python'')
                ([Str (js ''-X''), Str (js ''utf8''), Str scriptPath] @ args);
        stderr = concat (stderr_chunks run)
    in (runPython E scriptPath args = Inr out \<longleftrightarrow>
          existsSync E scriptPath \<and> exit_code run = Some 0
          \<and> out = concat (stdout_chunks run))
       \<and> (existsSync E scriptPath \<and> exit_code run \<noteq> Some 0 \<longrightarrow>
            (\<exists>m. runPython E scriptPath args = Inl (Error m) \<and> m \<noteq> []
               \<and> m = (if trim stderr \<noteq> [] then trim stderr
                      else js ''Python script exited with code '' @ show_code (exit_code run))))
       \<and> (\<not> existsSync E scriptPath \<longrightarrow>
            runPython E scriptPath args
              = Inl (Error (js ''Python script not found: '' @ scriptPath))))"
proof -
  have "js ''Python script exited with code '' @ c \<noteq> []" for c
    by (simp add: js_def)
  then show ?thesis
    unfolding runPython_def Let_def by auto
qed

theorem runPython_settles_by_exit_code_witness:
  "existsSync (sample_env sample_files (run_ok timing_text)) (js ''/app/get_replay_data.py'')
   \<and> concat (stderr_chunks (run_ok timing_text)) \<noteq> []
   \<and> runPython (sample_env sample_files (run_ok timing_text)) (js ''/app/get_replay_data.py'')
        [Str (js ''race_times'')] = Inr timing_text
   \<and> runPython (sample_env sample_files (run_failed (js '' boom '') (Some 2)))
        (js ''/app/get_replay_data.py'') [] = Inl (Error (js ''boom''))
   \<and> runPython (sample_env sample_files (run_failed (js ''  '') (Some 1)))
        (js ''/app/get_replay_data.py'') []
        = Inl (Error (js ''Python script exited with code 1''))"
  using runPython_settles_by_exit_code [of "sample_env sample_files (run_ok timing_text)"
      "js ''/app/get_replay_data.py''" "[Str (js ''race_times'')]" timing_text]
    runPython_settles_by_exit_code [of "sample_env sample_files (run_failed (js '' boom '') (Some 2))"
      "js ''/app/get_replay_data.py''" "[]" "[]"]
    runPython_settles_by_exit_code [of "sample_env sample_files (run_failed (js ''  '') (Some 1))"
      "js ''/app/get_replay_data.py''" "[]" "[]"]
  by (simp add: sample_eval runPython_def js_def trim_def is_space_def show_code_def show_int_def)

section \<open>The driver page\<close>

lemma slugify_returns: "\<not> shadows_toString v \<Longrightarrow> \<exists>s. slugify lower v = Inr s"
  using ToString_throws [of v] by (auto simp: slugify_def)

lemma driver_matches_record:
  assumes "driver_record d"
  shows "driver_matches E driverId d
           = Inr (slugify (toLowerCase E) (read_prop d (js ''full_name'')) = Inr driverId)"
proof -
  from assms obtain ps where d: "d = Obj ps"
    and ok: "\<not> shadows_toString (own ps (js ''full_name''))"
    by (cases d) auto
  from slugify_returns [OF ok] obtain s
    where "slugify (toLowerCase E) (own ps (js ''full_name'')) = Inr s" by blast
  then show ?thesis
    by (simp add: driver_matches_def get_def and_then_def d)
qed

lemma find_first_records:
  "list_all driver_record ds \<Longrightarrow>
   find_first (driver_matches E driverId) ds
     = Inr (case find (\<lambda>d. slugify (toLowerCase E) (read_prop d (js ''full_name''))
                             = Inr driverId) ds of
              None \<Rightarrow> Undefined
            | Some d \<Rightarrow> d)"
  by (induction ds) (simp_all add: driver_matches_record)

lemma driver_record_truthy: "driver_record d \<Longrightarrow> truthy d"
  by (cases d) auto

lemma driver_found_page:
  assumes "driver_found E d = Inr r"
  shows "status r = 200 \<and> own (locals_of r) (js ''info'') = d"
  using assms
  by (auto simp: driver_found_def and_then_def Let_def own_def js_def split: sum.splits)

text \<open>
  C2. For every list of driver records in the drivers file and every path parameter
  \<open>driverId\<close>, the handler goes on with the first record of the list whose
  \<open>slugify(full_name)\<close> equals \<open>driverId\<close> (the page it renders carries that record as
  \<open>info\<close>), and answers with the not-found state, status 404 and the empty view model,
  when the list has no such record.
\<close>

theorem driver_detail_first_match:
  assumes loaded: "readJSON E (path_join E [DATA_DIR E, js ''drivers.json'']) = Inr (Arr ds)"
    and records: "list_all driver_record ds"
  shows "case find (\<lambda>d. slugify (toLowerCase E) (read_prop d (js ''full_name''))
                          = Inr driverId) ds of
           None \<Rightarrow> driver_detail E driverId = driver_not_found
         | Some d \<Rightarrow>
             driver_detail E driverId
               = (case driver_found E d of Inl e \<Rightarrow> driver_load_failed | Inr r \<Rightarrow> r)
             \<and> (\<forall>r. driver_found E d = Inr r \<longrightarrow>
                   status r = 200 \<and> own (locals_of r) (js ''info'') = d)"
proof (cases "find (\<lambda>d. slugify (toLowerCase E) (read_prop d (js ''full_name''))
                          = Inr driverId) ds")
  case None
  then show ?thesis
    using loaded find_first_records [OF records, of E driverId]
    by (simp add: driver_detail_def driver_detail_try_def and_then_def call_find_def)
next
  case (Some d)
  then have "d \<in> set ds" by (auto simp: find_Some_iff)
  with records have "truthy d"
    by (auto simp: list_all_iff driver_record_truthy)
  then show ?thesis
    using Some loaded find_first_records [OF records, of E driverId] driver_found_page
    by (simp add: driver_detail_def driver_detail_try_def and_then_def call_find_def)
qed

theorem driver_detail_first_match_witness:
  "readJSON (sample_env sample_files (run_ok [])) (js ''/app/public/data/drivers.json'')
     = Inr drivers_value
   \<and> driver_detail (sample_env sample_files (run_ok [])) (js ''max-verstappen'')
     = Render 200 (js ''driver-detail'')
         [(js ''info'', Obj [(js ''full_name'', Str (js ''Max Verstappen'')), (js ''number'', Num 1)]),
          (js ''description'', Str msg_no_description), (js ''season'', Obj []),
          (js ''career'', Obj []), (js ''error'', Null), (js ''currentPage'', Str (js ''drivers''))]
   \<and> slugify ascii_lower (Str (js ''MAX  verstappen!'')) = Inr (js ''max-verstappen'')
   \<and> driver_detail (sample_env sample_files (run_ok [])) (js ''lewis-hamilton'')
     = Render 404 (js ''driver-detail'') (empty_driver_model msg_driver_not_found)"
proof -
  let ?E = "sample_env sample_files (run_ok [])"
  have loaded: "readJSON ?E (path_join ?E [DATA_DIR ?E, js ''drivers.json''])
                  = Inr (Arr [Obj [(js ''full_name'', Str (js ''Max Verstappen'')), (js ''number'', Num 1)],
                              Obj [(js ''full_name'', Str (js ''MAX  verstappen!'')), (js ''number'', Num 33)]])"
    by (simp add: sample_eval readJSON_def and_then_def js_def)
  have records: "list_all driver_record
                   [Obj [(js ''full_name'', Str (js ''Max Verstappen'')), (js ''number'', Num 1)],
                    Obj [(js ''full_name'', Str (js ''MAX  verstappen!'')), (js ''number'', Num 33)]]"
    by (simp add: own_def)
  have found: "driver_found ?E (Obj [(js ''full_name'', Str (js ''Max Verstappen'')), (js ''number'', Num 1)])
     = Inr (Render 200 (js ''driver-detail'')
         [(js ''info'', Obj [(js ''full_name'', Str (js ''Max Verstappen'')), (js ''number'', Num 1)]),
          (js ''description'', Str msg_no_description), (js ''season'', Obj []),
          (js ''career'', Obj []), (js ''error'', Null), (js ''currentPage'', Str (js ''drivers''))])"
    by (simp add: driver_found_def sample_eval readJSON_def and_then_def get_def own_def
        get_computed_def own_member_def object_prototype_def native_def opt_get_def slug_eval)
  have slug1: "slugify ascii_lower (Str (js ''Max Verstappen'')) = Inr (js ''max-verstappen'')"
    by (simp add: slug_eval)
  have slug2: "slugify ascii_lower (Str (js ''MAX  verstappen!'')) = Inr (js ''max-verstappen'')"
    by (simp add: slug_eval)
  have low: "toLowerCase ?E = ascii_lower" by (simp add: sample_env_def)
  have ne: "js ''max-verstappen'' \<noteq> js ''lewis-hamilton''" by (simp add: js_def)
  show ?thesis
    using driver_detail_first_match [OF loaded records, of "js ''max-verstappen''"]
      driver_detail_first_match [OF loaded records, of "js ''lewis-hamilton''"]
      found slug1 slug2 ne
    by (simp add: low own_def driver_not_found_def)
       (simp add: sample_eval readJSON_def and_then_def js_def)
qed

text \<open>
  A computed key that names a member of a prototype reads that member: the
  descriptions object \<open>{}\<close> has no entry for a driver called \<open>constructor\<close>, and the
  read yields the function \<open>Object\<close>, not \<open>undefined\<close>; an own entry comes first.
\<close>

lemma computed_read_through_prototype:
  "get_computed (prototype_member (sample_env sample_files (run_ok []))) (Obj [])
     (Str (js ''constructor'')) = Inr (native ''Object'')
   \<and> get_computed (prototype_member (sample_env sample_files (run_ok [])))
       (Obj [(js ''constructor'', Str (js ''a team''))])
       (Str (js ''constructor'')) = Inr (Str (js ''a team''))
   \<and> get_computed (prototype_member (sample_env sample_files (run_ok []))) (Obj [])
       (Str (js ''Max Verstappen'')) = Inr Undefined"
  by (simp add: get_computed_def own_member_def and_then_def sample_env_def
      object_prototype_def js_def)

text \<open>
  C9. The claim asks for the not-found state, status 404 with the empty view model,
  when the loader returns \<open>null\<close> for the drivers file (the file is missing or
  malformed). The handler does not give it. It calls \<open>drivers.find\<close> on the loader's
  result without the guard that its neighbours have for the same sentinel
  (\<open>drivers || []\<close> in the list handler, \<open>schedule?.find\<close> in the replay and locations
  handlers, \<open>driverStats?.season\<close> further down in this one), the TypeError falls into
  the \<open>catch\<close>, and the response is the error state. What the code does on every
  such request: status 500 with the empty view model and the message that the driver
  data could not be loaded, which is not the not-found state.
\<close>

theorem driver_detail_without_data_fails:
  assumes "readJSON E (path_join E [DATA_DIR E, js ''drivers.json'']) = Inr Null"
  shows "driver_detail E driverId
           = Render 500 (js ''driver-detail'') (empty_driver_model msg_driver_load_failed)
         \<and> driver_detail E driverId \<noteq> driver_not_found"
  using assms
  by (simp add: driver_detail_def driver_detail_try_def and_then_def call_find_def
      driver_load_failed_def driver_not_found_def)

theorem driver_detail_without_data_fails_witness:
  "readJSON (sample_env [(js ''/app/public/data/drivers.json'', js ''[{'')] (run_ok []))
     (js ''/app/public/data/drivers.json'') = Inr Null
   \<and> driver_detail (sample_env [(js ''/app/public/data/drivers.json'', js ''[{'')] (run_ok []))
       (js ''max-verstappen'')
     = Render 500 (js ''driver-detail'') (empty_driver_model msg_driver_load_failed)"
proof -
  let ?E = "sample_env [(js ''/app/public/data/drivers.json'', js ''[{'')] (run_ok [])"
  have null: "readJSON ?E (path_join ?E [DATA_DIR ?E, js ''drivers.json'']) = Inr Null"
    by (simp add: sample_eval readJSON_def and_then_def js_def)
  have "path_join ?E [DATA_DIR ?E, js ''drivers.json''] = js ''/app/public/data/drivers.json''"
    by (simp add: sample_eval js_def)
  then show ?thesis
    using driver_detail_without_data_fails [OF null, of "js ''max-verstappen''"] null
    by simp
qed

text \<open>
  The failing request: with no drivers file at all the loader returns \<open>null\<close> and the
  response to \<open>GET /drivers/max-verstappen\<close> has status 500, not 404.
\<close>

theorem driver_detail_missing_file_is_500:
  "readJSON (sample_env [] (run_ok [])) (js ''/app/public/data/drivers.json'') = Inr Null
   \<and> status (driver_detail (sample_env [] (run_ok [])) (js ''max-verstappen'')) = 500"
  by (simp add: sample_eval readJSON_def and_then_def js_def driver_detail_def
      driver_detail_try_def call_find_def driver_load_failed_def)

section \<open>The replay page and the locations endpoint\<close>

lemmas handler_eval =
  replay_def replay_try_def replay_found_def replay_failed_def replay_page_def
  session_not_found_def fetchRaceTimingFromPython_def session_year_def runPython_def
  circuit_name_def layout_matches_def session_matches_def track_image_url_def
  possibleExtensions_def image_path_def image_name_def driver_directory_def
  final_session_info_def readJSON_def and_then_def get_def opt_get_def own_def opt_find_def
  call_find_def put_def show_int_def


subsection \<open>The image probe\<close>

lemma probe_is_find:
  "probe E name exts
     = (case find (\<lambda>ext. existsSync E (image_path E name ext)) exts of
          None \<Rightarrow> Null
        | Some ext \<Rightarrow> Str (js ''/images/tracks/'' @ image_name name ext))"
  by (induction exts) simp_all

text \<open>
  C7 (as amended). For every non-empty normalized circuit name and every state of the
  tracks directory, the probe yields the URL of the first file that exists in the
  order avif, png, webp, jpg, jpeg (with the png present and the avif absent, the
  png), and \<open>null\<close> when none of the five exists. For the empty circuit name, as for
  a session without one, no file is probed and the URL is \<open>null\<close>.
\<close>

theorem track_image_first_existing:
  "(name \<noteq> [] \<longrightarrow>
      track_image_url E (Str name)
        = (case find (\<lambda>ext. existsSync E (image_path E name ext))
                  [js ''avif'', js ''png'', js ''webp'', js ''jpg'', js ''jpeg''] of
             None \<Rightarrow> Null
           | Some ext \<Rightarrow> Str (js ''/images/tracks/'' @ image_name name ext)))
   \<and> (name \<noteq> [] \<and> \<not> existsSync E (image_path E name (js ''avif''))
        \<and> existsSync E (image_path E name (js ''png'')) \<longrightarrow>
        track_image_url E (Str name) = Str (js ''/images/tracks/'' @ name @ js ''.png''))
   \<and> track_image_url E (Str []) = Null
   \<and> track_image_url E Undefined = Null"
  by (simp add: track_image_url_def probe_is_find possibleExtensions_def image_name_def js_def)

theorem track_image_first_existing_witness:
  "\<not> existsSync (sample_env sample_files (run_ok []))
        (image_path (sample_env sample_files (run_ok [])) (js ''bahrain'') (js ''avif''))
   \<and> existsSync (sample_env sample_files (run_ok []))
        (image_path (sample_env sample_files (run_ok [])) (js ''bahrain'') (js ''png''))
   \<and> existsSync (sample_env sample_files (run_ok []))
        (image_path (sample_env sample_files (run_ok [])) (js ''bahrain'') (js ''jpg''))
   \<and> track_image_url (sample_env sample_files (run_ok [])) (Str (js ''bahrain''))
     = Str (js ''/images/tracks/bahrain.png'')
   \<and> track_image_url (sample_env sample_files (run_ok [])) (Str (js ''monza'')) = Null"
  using track_image_first_existing [of "js ''bahrain''" "sample_env sample_files (run_ok [])"]
    track_image_first_existing [of "js ''monza''" "sample_env sample_files (run_ok [])"]
  by (simp add: sample_env_def sample_files_def PUBLIC_DIR_def ROOT_DIR_def image_path_def
      image_name_def js_def)

text \<open>
  A session whose \<open>circuit_short_name\<close> is the empty string has the empty normalized
  name; with the file \<open>.avif\<close> in the tracks directory the first candidate exists, and
  the URL is \<open>null\<close> all the same.
\<close>

theorem empty_circuit_name_is_not_probed:
  "circuit_name (sample_env [(js ''/app/public/images/tracks/.avif'', [])] (run_ok []))
     (Obj [(js ''circuit_short_name'', Str [])]) = Inr (Str [])
   \<and> existsSync (sample_env [(js ''/app/public/images/tracks/.avif'', [])] (run_ok []))
        (image_path (sample_env [(js ''/app/public/images/tracks/.avif'', [])] (run_ok []))
           [] (js ''avif''))
   \<and> track_image_url (sample_env [(js ''/app/public/images/tracks/.avif'', [])] (run_ok []))
        (Str []) = Null"
  by (simp add: sample_env_def PUBLIC_DIR_def ROOT_DIR_def image_path_def image_name_def
      js_def track_image_url_def circuit_name_def get_def own_def and_then_def ascii_lower_def)

subsection \<open>A session key that the schedule does not have\<close>

lemma session_matches_record:
  assumes "session_record s"
  shows "session_matches session_key s
           = Inr (ToString (read_prop s (js ''session_key'')) = Inr session_key)"
proof -
  from assms obtain ps where s: "s = Obj ps"
    and ok: "\<not> shadows_toString (own ps (js ''session_key''))"
    by (cases s) auto
  from ToString_throws [of "own ps (js ''session_key'')"] ok obtain t
    where "ToString (own ps (js ''session_key'')) = Inr t" by blast
  then show ?thesis
    by (simp add: session_matches_def get_def and_then_def s)
qed

lemma find_first_sessions:
  "list_all session_record ss \<Longrightarrow>
   find_first (session_matches session_key) ss
     = Inr (case find (\<lambda>s. ToString (read_prop s (js ''session_key'')) = Inr session_key) ss of
              None \<Rightarrow> Undefined
            | Some s \<Rightarrow> s)"
  by (induction ss) (simp_all add: session_matches_record)

lemma find_session_absent:
  assumes "schedule = Null
           \<or> (\<exists>ss. schedule = Arr ss \<and> list_all session_record ss
                 \<and> list_all (\<lambda>s. ToString (read_prop s (js ''session_key'')) \<noteq> Inr session_key) ss)"
  shows "opt_find schedule (session_matches session_key) = Inr Undefined"
proof -
  have "find P ss = None" if "list_all (\<lambda>s. \<not> P s) ss" for P and ss :: "jsval list"
    using that by (induction ss) auto
  then show ?thesis
    using assms by (auto simp: opt_find_def call_find_def find_first_sessions)
qed

lemma locations_router_status:
  "status (locations_router E session_key startTime endTime) \<in> {200, 500}"
  by (simp add: locations_router_def Let_def json_error_def split: sum.splits)

text \<open>
  C4 (as amended). When the schedule (missing, or a list of session records) has no
  entry whose \<open>session_key\<close>, as a string, equals the path parameter, the two handlers
  of f1api.js, \<open>GET /replays/:session_key\<close> and \<open>GET /api/locations/...\<close>, answer with
  status 404. The locations handler of the router module does not read the schedule:
  its status is 200 or 500, never 404.
\<close>

theorem absent_session_is_404:
  assumes loaded: "readJSON E (path_join E [DATA_DIR E, js ''schedule.json'']) = Inr schedule"
    and absent: "schedule = Null
           \<or> (\<exists>ss. schedule = Arr ss \<and> list_all session_record ss
                 \<and> list_all (\<lambda>s. ToString (read_prop s (js ''session_key'')) \<noteq> Inr session_key) ss)"
  shows "replay E session_key
           = Render 404 (js ''race-tracker'') [(js ''error'', Str msg_session_not_found)]
         \<and> locations E session_key startTime endTime
           = Json 404 (Obj [(js ''error'', Str (js ''Session info not found for the given key.''))])
         \<and> status (locations_router E session_key startTime endTime) \<noteq> 404"
proof -
  have none: "opt_find schedule (session_matches session_key) = Inr Undefined"
    using absent by (rule find_session_absent)
  obtain layouts where
    "readJSON E (path_join E [DATA_DIR E, js ''track_layouts.json'']) = Inr layouts"
    using readJSON_total by blast
  then have "replay E session_key = session_not_found"
    using loaded none by (simp add: replay_def replay_try_def and_then_def)
  moreover have "locations E session_key startTime endTime
           = json_error 404 (js ''Session info not found for the given key.'')"
    using loaded none by (simp add: locations_def locations_try_def and_then_def)
  moreover have "status (locations_router E session_key startTime endTime) \<noteq> 404"
    using locations_router_status [of E session_key startTime endTime] by auto
  ultimately show ?thesis
    by (simp add: session_not_found_def json_error_def)
qed

theorem absent_session_is_404_witness:
  "readJSON (sample_env sample_files (run_ok timing_text)) (js ''/app/public/data/schedule.json'')
     = Inr schedule_value
   \<and> ToString (Num 9472) = Inr (js ''9472'') \<and> js ''9472'' \<noteq> js ''1234''
   \<and> replay (sample_env sample_files (run_ok timing_text)) (js ''1234'')
     = Render 404 (js ''race-tracker'') [(js ''error'', Str msg_session_not_found)]
   \<and> locations (sample_env sample_files (run_ok timing_text)) (js ''1234'') (js ''0'') (js ''60'')
     = Json 404 (Obj [(js ''error'', Str (js ''Session info not found for the given key.''))])"
proof -
  let ?E = "sample_env sample_files (run_ok timing_text)"
  have loaded: "readJSON ?E (path_join ?E [DATA_DIR ?E, js ''schedule.json'']) = Inr schedule_value"
    by (simp add: sample_eval readJSON_def and_then_def js_def)
  have absent: "schedule_value = Null
           \<or> (\<exists>ss. schedule_value = Arr ss \<and> list_all session_record ss
                 \<and> list_all (\<lambda>s. ToString (read_prop s (js ''session_key'')) \<noteq> Inr (js ''1234'')) ss)"
    by (simp add: schedule_value_def own_def js_def show_int_def)
  have "path_join ?E [DATA_DIR ?E, js ''schedule.json''] = js ''/app/public/data/schedule.json''"
    by (simp add: sample_eval js_def)
  then show ?thesis
    using absent_session_is_404 [OF loaded absent, of "js ''0''" "js ''60''"] loaded
    by (simp add: js_def show_int_def)
qed

text \<open>
  The key \<open>1234\<close> is not in the sample schedule; the locations handler of the router
  module answers with the output of the script (status 200), or with status 500 when
  the script fails.
\<close>

theorem router_locations_ignores_schedule:
  "readJSON (sample_env sample_files (run_ok timing_text)) (js ''/app/public/data/schedule.json'')
     = Inr schedule_value
   \<and> session_matches (js ''1234'') (Obj [(js ''session_key'', Num 9472)]) = Inr False
   \<and> locations_router (sample_env sample_files (run_ok timing_text)) (js ''1234'') (js ''0'')
       (js ''60'') = Json 200 timing_value
   \<and> locations_router (sample_env sample_files (run_failed (js ''no session'') (Some 1)))
       (js ''1234'') (js ''0'') (js ''60'') = Json 500 (Obj [(js ''error'', Str msg_query_failed)])"
  by (simp add: sample_eval readJSON_def and_then_def js_def locations_router_def json_error_def
      session_matches_def get_def own_def show_int_def)

subsection \<open>An error field in the race timing\<close>




subsection \<open>A session without a track layout\<close>

lemma map_of_replace:
  "map_of (map (\<lambda>(k', v'). if k' = k then (k', v) else (k', v')) ps) x
     = (if x = k \<and> k \<in> fst ` set ps then Some v else map_of ps x)"
proof (induction ps)
  case Nil
  show ?case by simp
next
  case (Cons p ps)
  obtain a b where p: "p = (a, b)" by (cases p)
  show ?case using Cons by (cases "x = k") (simp_all add: p)
qed

lemma own_put:
  "own (put ps k v) x = (if x = k then v else own ps x)"
proof (cases "k \<in> fst ` set ps")
  case True
  then show ?thesis
    by (simp add: own_def put_def map_of_replace)
next
  case False
  then have "map_of ps k = None"
    by (simp add: map_of_eq_None_iff)
  with False show ?thesis
    by (simp add: own_def put_def map_add_def split: option.splits)
qed

lemma final_session_info_layout:
  "own (final_session_info sessionInfo trackImageUrl layout raceTiming) (js ''layout'') = layout"
  by (simp add: final_session_info_def Let_def own_put js_def)

lemma layout_matches_record:
  "layout_record l \<Longrightarrow>
   layout_matches circuitName l
     = Inr (strict_eq (read_prop l (js ''circuit_short_name'')) circuitName)"
  by (cases l) (simp_all add: layout_matches_def get_def and_then_def)

lemma find_first_layouts:
  "list_all layout_record ls \<Longrightarrow>
   find_first (layout_matches circuitName) ls
     = Inr (case find (\<lambda>l. strict_eq (read_prop l (js ''circuit_short_name'')) circuitName) ls of
              None \<Rightarrow> Undefined
            | Some l \<Rightarrow> l)"
  by (induction ls) (simp_all add: layout_matches_record)

lemma find_layout_absent:
  assumes "layouts = Null
           \<or> (\<exists>ls. layouts = Arr ls \<and> list_all layout_record ls
                 \<and> list_all (\<lambda>l. \<not> strict_eq (read_prop l (js ''circuit_short_name''))
                                   circuitName) ls)"
  shows "opt_find layouts (layout_matches circuitName) = Inr Undefined"
proof -
  have "find P ls = None" if "list_all (\<lambda>l. \<not> P l) ls" for P and ls :: "jsval list"
    using that by (induction ls) auto
  then show ?thesis
    using assms by (auto simp: opt_find_def call_find_def find_first_layouts)
qed

text \<open>
  C8. For every session found in the schedule whose normalized circuit name matches no
  entry of the track layouts (the layouts missing, or a list of records none of which
  has that name), the handler does not fail for want of a layout: its response is
  never 404, it is the error state only when the race-timing fetch or the driver
  directory throws, and otherwise the replay page, in whose session view model
  \<open>layout\<close> holds no layout (\<open>undefined\<close>, the result of \<open>find\<close> without a match).
\<close>

theorem replay_renders_without_layout:
  assumes schedule: "readJSON E (path_join E [DATA_DIR E, js ''schedule.json'']) = Inr schedule"
    and found: "opt_find schedule (session_matches session_key) = Inr sessionInfo"
    and present: "truthy sessionInfo"
    and circuit: "circuit_name E sessionInfo = Inr circuitName"
    and layouts: "readJSON E (path_join E [DATA_DIR E, js ''track_layouts.json'']) = Inr layouts"
    and no_layout: "layouts = Null
           \<or> (\<exists>ls. layouts = Arr ls \<and> list_all layout_record ls
                 \<and> list_all (\<lambda>l. \<not> strict_eq (read_prop l (js ''circuit_short_name''))
                                   circuitName) ls)"
    and drivers: "readJSON E (path_join E [DATA_DIR E, js ''drivers.json'']) = Inr drivers"
    and teams: "readJSON E (path_join E [ROOT_DIR E, js ''f1_team.json'']) = Inr f1Teams"
  shows "replay E session_key
           = (case fetchRaceTimingFromPython E sessionInfo of
                Inl e \<Rightarrow> replay_failed session_key e
              | Inr raceTiming \<Rightarrow>
                  (case driver_directory drivers f1Teams of
                     Inl e \<Rightarrow> replay_failed session_key e
                   | Inr driverDirectory \<Rightarrow>
                       Render 200 (js ''race-tracker'')
                         [(js ''session_key'', Str session_key),
                          (js ''driverDirectory'', Obj driverDirectory),
                          (js ''sessionInfo'',
                           Obj (final_session_info sessionInfo (track_image_url E circuitName)
                                  Undefined raceTiming)),
                          (js ''currentPage'', Str (js ''schedule'')), (js ''error'', Null)]))
         \<and> (\<forall>raceTiming.
               own (final_session_info sessionInfo (track_image_url E circuitName) Undefined
                      raceTiming) (js ''layout'') = Undefined)
         \<and> status (replay E session_key) \<noteq> 404"
proof -
  have none: "opt_find layouts (layout_matches circuitName) = Inr Undefined"
    using no_layout by (rule find_layout_absent)
  have eq: "replay E session_key
           = (case fetchRaceTimingFromPython E sessionInfo of
                Inl e \<Rightarrow> replay_failed session_key e
              | Inr raceTiming \<Rightarrow>
                  (case driver_directory drivers f1Teams of
                     Inl e \<Rightarrow> replay_failed session_key e
                   | Inr driverDirectory \<Rightarrow>
                       replay_page session_key driverDirectory
                         (final_session_info sessionInfo (track_image_url E circuitName)
                            Undefined raceTiming)))"
    using schedule found present circuit layouts none drivers teams
    by (simp add: replay_def replay_try_def replay_found_def and_then_def split: sum.splits)
  have not_404: "status (replay E session_key) \<noteq> 404"
    unfolding eq by (simp add: replay_failed_def replay_page_def split: sum.splits)
  show ?thesis
  proof (intro conjI allI)
    show "replay E session_key
           = (case fetchRaceTimingFromPython E sessionInfo of
                Inl e \<Rightarrow> replay_failed session_key e
              | Inr raceTiming \<Rightarrow>
                  (case driver_directory drivers f1Teams of
                     Inl e \<Rightarrow> replay_failed session_key e
                   | Inr driverDirectory \<Rightarrow>
                       Render 200 (js ''race-tracker'')
                         [(js ''session_key'', Str session_key),
                          (js ''driverDirectory'', Obj driverDirectory),
                          (js ''sessionInfo'',
                           Obj (final_session_info sessionInfo (track_image_url E circuitName)
                                  Undefined raceTiming)),
                          (js ''currentPage'', Str (js ''schedule'')), (js ''error'', Null)]))"
      unfolding eq replay_page_def by (rule refl)
  next
    fix raceTiming
    show "own (final_session_info sessionInfo (track_image_url E circuitName) Undefined
                 raceTiming) (js ''layout'') = Undefined"
      by (rule final_session_info_layout)
  next
    show "status (replay E session_key) \<noteq> 404" by (rule not_404)
  qed
qed

theorem replay_renders_without_layout_witness:
  "fetchRaceTimingFromPython (sample_env sample_files (run_ok timing_text))
       (Obj [(js ''session_key'', Num 9472), (js ''circuit_short_name'', Str (js ''Bahrain'')),
             (js ''meeting_name'', Str (js ''Bahrain Grand Prix'')),
             (js ''session_name'', Str (js ''Race'')), (js ''session_year'', Num 2024)])
     = Inr timing_value
   \<and> replay (sample_env sample_files (run_ok timing_text)) (js ''9472'')
     = Render 200 (js ''race-tracker'')
         [(js ''session_key'', Str (js ''9472'')), (js ''driverDirectory'', Obj []),
          (js ''sessionInfo'',
           Obj [(js ''session_key'', Num 9472), (js ''circuit_short_name'', Str (js ''Bahrain'')),
                (js ''meeting_name'', Str (js ''Bahrain Grand Prix'')),
                (js ''session_name'', Str (js ''Race'')), (js ''session_year'', Num 2024),
                (js ''trackImageUrl'', Str (js ''/images/tracks/bahrain.png'')),
                (js ''layout'', Undefined),
                (js ''date_start'', Str (js ''2024-03-02T15:00:00''))]),
          (js ''currentPage'', Str (js ''schedule'')), (js ''error'', Null)]"
proof -
  let ?E = "sample_env sample_files (run_ok timing_text)"
  let ?s = "Obj [(js ''session_key'', Num 9472), (js ''circuit_short_name'', Str (js ''Bahrain'')),
               (js ''meeting_name'', Str (js ''Bahrain Grand Prix'')),
               (js ''session_name'', Str (js ''Race'')), (js ''session_year'', Num 2024)]"
  have schedule: "readJSON ?E (path_join ?E [DATA_DIR ?E, js ''schedule.json'']) = Inr schedule_value"
    by (simp add: sample_eval readJSON_def and_then_def js_def)
  have found: "opt_find schedule_value (session_matches (js ''9472'')) = Inr ?s"
    by (simp add: schedule_value_def handler_eval js_def)
  have present: "truthy ?s" by simp
  have circuit: "circuit_name ?E ?s = Inr (Str (js ''bahrain''))"
    by (simp add: sample_env_def handler_eval js_def ascii_lower_def is_space_def)
  have layouts: "readJSON ?E (path_join ?E [DATA_DIR ?E, js ''track_layouts.json'']) = Inr layouts_value"
    by (simp add: sample_eval readJSON_def and_then_def js_def)
  have no_layout: "layouts_value = Null
           \<or> (\<exists>ls. layouts_value = Arr ls \<and> list_all layout_record ls
                 \<and> list_all (\<lambda>l. \<not> strict_eq (read_prop l (js ''circuit_short_name''))
                                   (Str (js ''bahrain''))) ls)"
    by (simp add: layouts_value_def own_def js_def)
  have drivers: "readJSON ?E (path_join ?E [DATA_DIR ?E, js ''drivers.json'']) = Inr drivers_value"
    by (simp add: sample_eval readJSON_def and_then_def js_def)
  have teams: "readJSON ?E (path_join ?E [ROOT_DIR ?E, js ''f1_team.json'']) = Inr Null"
    by (simp add: sample_eval readJSON_def and_then_def js_def)
  have fetch: "fetchRaceTimingFromPython ?E ?s = Inr timing_value"
    by (simp add: sample_eval handler_eval js_def)
  have url: "track_image_url ?E (Str (js ''bahrain'')) = Str (js ''/images/tracks/bahrain.png'')"
    by (simp add: sample_eval handler_eval js_def)
  have info: "final_session_info ?s (Str (js ''/images/tracks/bahrain.png'')) Undefined timing_value
     = [(js ''session_key'', Num 9472), (js ''circuit_short_name'', Str (js ''Bahrain'')),
                (js ''meeting_name'', Str (js ''Bahrain Grand Prix'')),
                (js ''session_name'', Str (js ''Race'')), (js ''session_year'', Num 2024),
                (js ''trackImageUrl'', Str (js ''/images/tracks/bahrain.png'')),
                (js ''layout'', Undefined),
                (js ''date_start'', Str (js ''2024-03-02T15:00:00''))]"
    by (simp add: timing_value_def final_session_info_def opt_get_def own_def put_def js_def)
  have dir: "driver_directory drivers_value Null = Inr []"
    by (simp add: driver_directory_def)
  show ?thesis
    using replay_renders_without_layout [OF schedule found present circuit layouts no_layout
        drivers teams]
    by (simp add: fetch url info dir)
qed


end
